theory Spec2Isabelle
  imports Main "HOL-Library.Sublist"
begin

section \<open>Prompt records, the record table and the artifact files\<close>

text \<open>
  The program keeps one SQLite table \<open>prompts\<close> with five TEXT columns and writes image
  files below \<open>images/\<close>. A row is a record of the five columns. The table has no key and
  no uniqueness constraint, rows are only ever appended (\<open>INSERT\<close>) or removed all at once
  (\<open>DELETE FROM prompts\<close>), so the table is the list of its rows in rowid order, which is
  the order a \<open>SELECT\<close> without \<open>ORDER BY\<close> scans them in.
  Text is a \<open>string\<close>: the bytes of its UTF-8 encoding. A text occurs in another as a run
  of code points exactly when its bytes occur as a run of bytes.
\<close>

record row =
  id_col :: string
  prompt :: string
  expected_style :: string
  image_path :: string
  timestamp :: string

text \<open>
  What \<open>os.path.exists\<close> and \<open>os.remove\<close> can tell apart at a path: a file the process
  may unlink, a file it may not unlink (its directory is not writable), a directory.
\<close>

datatype fnode = File | Locked_File | Dir

text \<open>
  The world the functions act on: the table (\<open>None\<close> while \<open>CREATE TABLE\<close> has not run)
  and the files by path. The table lives in the file \<open>prompts.db\<close> of the working
  directory; \<open>files\<close> describes the paths that do not lead to that file.
\<close>

record world =
  table :: "row list option"
  files :: "string \<rightharpoonup> fnode"

datatype error = OperationalError | PermissionError | IsADirectoryError | FileNotFoundError

text \<open>
  One \<open>INSERT\<close> of the program reads the environment twice: \<open>str(uuid.uuid4())\<close> and
  \<open>datetime.now().strftime("%Y-%m-%d %H:%M:%S")\<close>. The two strings read are a parameter
  of the function that inserts.
\<close>

type_synonym draw = "string \<times> string"

definition new_row :: "draw \<Rightarrow> string \<Rightarrow> string \<Rightarrow> string \<Rightarrow> row" where
  "new_row d p s i =
     \<lparr>id_col = fst d, prompt = p, expected_style = s, image_path = i, timestamp = snd d\<rparr>"

section \<open>The record store\<close>

definition mock_data :: "(string \<times> string) list" where
  "mock_data =
     [(''a fantasy castle in the clouds'', ''realistic''),
      (''a futuristic robot chef in a kitchen'', ''cyberpunk''),
      (''a panda riding a bicycle in space'', ''cartoon'')]"

text \<open>The loop of \<open>init_db\<close> over \<open>mock_data\<close>: one insert, with its own reads, per pair.\<close>

fun insert_mock :: "draw list \<Rightarrow> (string \<times> string) list \<Rightarrow> row list \<Rightarrow> row list" where
  "insert_mock (d # ds) ((p, s) # rest) rows = insert_mock ds rest (rows @ [new_row d p s []])"
| "insert_mock _ _ rows = rows"

text \<open>
  \<open>init_db\<close>: \<open>CREATE TABLE IF NOT EXISTS\<close>, then \<open>SELECT COUNT( * )\<close>, and the three
  mock rows when the count is 0. The three pairs of reads are \<open>d1\<close>, \<open>d2\<close>, \<open>d3\<close>.
\<close>

definition init_db :: "draw \<times> draw \<times> draw \<Rightarrow> world \<Rightarrow> world" where
  "init_db ds w =
     (let rows = (case table w of None \<Rightarrow> [] | Some rs \<Rightarrow> rs) in
      if length rows = 0
      then (case ds of (d1, d2, d3) \<Rightarrow> w\<lparr>table := Some (insert_mock [d1, d2, d3] mock_data rows)\<rparr>)
      else w\<lparr>table := Some rows\<rparr>)"

text \<open>\<open>save_prompt\<close>: the \<open>INSERT\<close> raises \<open>OperationalError\<close> when there is no table.\<close>

definition save_prompt :: "draw \<Rightarrow> string \<Rightarrow> string \<Rightarrow> string \<Rightarrow> world \<Rightarrow> error + world" where
  "save_prompt d p s i w =
     (case table w of
        None \<Rightarrow> Inl OperationalError
      | Some rows \<Rightarrow> Inr (w\<lparr>table := Some (rows @ [new_row d p s i])\<rparr>))"

type_synonym entry = "string \<times> string \<times> string \<times> string"

text \<open>
  \<open>get_prompt_history\<close>: the four columns
  \<open>SELECT prompt, expected_style, image_path, timestamp\<close> names, of every row.
\<close>

definition selected :: "row \<Rightarrow> entry" where
  "selected r = (prompt r, expected_style r, image_path r, timestamp r)"

definition get_prompt_history :: "world \<Rightarrow> error + entry list" where
  "get_prompt_history w =
     (case table w of
        None \<Rightarrow> Inl OperationalError
      | Some rows \<Rightarrow> Inr (map selected rows))"

text \<open>A sequence of calls of \<open>save_prompt\<close>; an exception ends the sequence.\<close>

fun save_prompts :: "(draw \<times> string \<times> string \<times> string) list \<Rightarrow> world \<Rightarrow> error + world" where
  "save_prompts [] w = Inr w"
| "save_prompts ((d, p, s, i) # rest) w =
     (case save_prompt d p s i w of Inl e \<Rightarrow> Inl e | Inr w' \<Rightarrow> save_prompts rest w')"

section \<open>Deleting the history\<close>

definition os_path_exists :: "(string \<rightharpoonup> fnode) \<Rightarrow> string \<Rightarrow> bool" where
  "os_path_exists fs path = (fs path \<noteq> None)"

definition os_remove :: "(string \<rightharpoonup> fnode) \<Rightarrow> string \<Rightarrow> error + (string \<rightharpoonup> fnode)" where
  "os_remove fs path =
     (case fs path of
        None \<Rightarrow> Inl FileNotFoundError
      | Some File \<Rightarrow> Inr (fs(path := None))
      | Some Locked_File \<Rightarrow> Inl PermissionError
      | Some Dir \<Rightarrow> Inl IsADirectoryError)"

text \<open>\<open>SELECT image_path FROM prompts WHERE image_path != ''\<close>, as the list of \<open>row[0]\<close>.\<close>

definition select_image_paths :: "row list \<Rightarrow> string list" where
  "select_image_paths rows = map image_path (filter (\<lambda>r. image_path r \<noteq> []) rows)"

text \<open>
  The loop over \<open>image_paths\<close>. An exception of \<open>os.remove\<close> is not caught: it ends the loop
  with the files as they are then.
\<close>

fun remove_images :: "string list \<Rightarrow> (string \<rightharpoonup> fnode) \<Rightarrow> error option \<times> (string \<rightharpoonup> fnode)" where
  "remove_images [] fs = (None, fs)"
| "remove_images (path # rest) fs =
     (if os_path_exists fs path
      then (case os_remove fs path of
              Inl e \<Rightarrow> (Some e, fs)
            | Inr fs' \<Rightarrow> remove_images rest fs')
      else remove_images rest fs)"

text \<open>
  \<open>delete_prompt_history\<close> returns no value: the result is the exception that left it, if
  any, and the world it leaves. The \<open>DELETE\<close> runs after the loop, so an exception in the
  loop leaves the rows as they were.

  The database is a file of the same file system. Which paths lead to it (\<open>prompts.db\<close>
  under any spelling or link) is decided by the operating system and the working directory:
  it is the parameter \<open>names_db\<close>. The connection is open when the loop runs, so at such a
  path a file exists, and on a POSIX system \<open>os.remove\<close> unlinks it (SQLite has written
  to that directory). Once the file is unlinked the table is gone, and the \<open>DELETE\<close> on
  the open connection raises \<open>OperationalError\<close> (attempt to write a readonly database).
\<close>

definition delete_prompt_history :: "(string \<Rightarrow> bool) \<Rightarrow> world \<Rightarrow> error option \<times> world" where
  "delete_prompt_history names_db w =
     (case table w of
        None \<Rightarrow> (Some OperationalError, w)
      | Some rows \<Rightarrow>
          (let image_paths = select_image_paths rows;
               disk = (\<lambda>p. if names_db p then Some File else files w p)
           in case remove_images image_paths disk of
                (r, fs) \<Rightarrow>
                  (let db_unlinked = list_ex (\<lambda>p. names_db p \<and> fs p = None) image_paths;
                       files' = (\<lambda>p. if names_db p then files w p else fs p)
                   in case r of
                        Some e \<Rightarrow>
                          (Some e, w\<lparr>table := (if db_unlinked then None else Some rows),
                                     files := files'\<rparr>)
                      | None \<Rightarrow>
                          if db_unlinked
                          then (Some OperationalError, w\<lparr>table := None, files := files'\<rparr>)
                          else (None, w\<lparr>table := Some [], files := files'\<rparr>))))"

text \<open>A working directory in which only the spelling \<open>prompts.db\<close> leads to the database.\<close>

definition plain_names :: "string \<Rightarrow> bool" where
  "plain_names p = (p = ''prompts.db'')"

section \<open>The evaluation report\<close>

text \<open>Python's \<open>a in b\<close> on strings: \<open>a\<close> occurs in \<open>b\<close> as a contiguous run.\<close>

fun str_in :: "string \<Rightarrow> string \<Rightarrow> bool" where
  "str_in a [] = (a = [])"
| "str_in a (c # cs) = (prefix a (c # cs) \<or> str_in a cs)"

definition header :: string where
  "header = ''Evaluation Report\<newline>'' @ replicate 20 CHR ''='' @ ''\<newline>''"

text \<open>
  What one iteration of the loop of \<open>generate_report\<close> adds to \<open>report\<close>. The method
  \<open>str.lower\<close> belongs to the Python that runs the program: it lowers by the case tables
  of that Python's Unicode database, with rules that look at the neighbours of a letter. It
  is the parameter \<open>str_lower\<close>.
\<close>

fun report_block :: "(string \<Rightarrow> string) \<Rightarrow> entry \<Rightarrow> string" where
  "report_block str_lower (p, style, path, ts) =
     (if path \<noteq> []
      then (let alignment = (if str_in (str_lower style) (str_lower p)
                             then ''Aligned'' else ''Not fully aligned'')
            in ''Prompt: '' @ p @ ''\<newline>Style: '' @ style @ ''\<newline>Image: '' @ path
               @ ''\<newline>Alignment: '' @ alignment @ ''\<newline>Timestamp: '' @ ts
               @ ''\<newline>\<newline>'')
      else ''Prompt: '' @ p @ ''\<newline>Style: '' @ style
           @ ''\<newline>Image: Not generated\<newline>Alignment: N/A\<newline>Timestamp: '' @ ts
           @ ''\<newline>\<newline>'')"

fun report_loop :: "(string \<Rightarrow> string) \<Rightarrow> entry list \<Rightarrow> string \<Rightarrow> string" where
  "report_loop str_lower [] report = report"
| "report_loop str_lower (e # rest) report =
     report_loop str_lower rest (report @ report_block str_lower e)"

definition generate_report :: "(string \<Rightarrow> string) \<Rightarrow> entry list \<Rightarrow> string" where
  "generate_report str_lower history = report_loop str_lower history header"

section \<open>The generate step of \<open>main\<close>\<close>

text \<open>
  The branch \<open>if generate_button and prompt:\<close> of \<open>main\<close>. The image backend and
  \<open>image.save\<close> are outside the program: \<open>image_saved\<close> says whether the \<open>try\<close> body got
  past \<open>image.save(image_path)\<close>, \<open>u\<close> is the uuid read for the file name. Every exception
  in the body, the one of \<open>save_prompt\<close> too, is caught and shown.
\<close>

definition main_generate ::
  "bool \<Rightarrow> string \<Rightarrow> string \<Rightarrow> bool \<Rightarrow> string \<Rightarrow> draw \<Rightarrow> world \<Rightarrow> world" where
  "main_generate generate_button p style image_saved u d w =
     (if generate_button \<and> p \<noteq> []
      then (if image_saved
            then (let path = ''images/'' @ u @ ''.png'';
                      w' = w\<lparr>files := (files w)(path \<mapsto> File)\<rparr>
                  in case save_prompt d p style path w' of Inl e \<Rightarrow> w' | Inr w'' \<Rightarrow> w'')
            else w)
      else w)"

section \<open>Notions used to state the properties\<close>

text \<open>The rows a \<open>SELECT\<close> would see, none while there is no table.\<close>

definition stored_rows :: "world \<Rightarrow> row list" where
  "stored_rows w = (case table w of None \<Rightarrow> [] | Some rows \<Rightarrow> rows)"

text \<open>The row one call \<open>save_prompt(p, s, i)\<close> with the reads \<open>d\<close> stores.\<close>

definition inserted_row :: "draw \<times> string \<times> string \<times> string \<Rightarrow> row" where
  "inserted_row x = (case x of (d, p, s, i) \<Rightarrow> new_row d p s i)"

text \<open>The three rows \<open>init_db\<close> seeds an empty table with.\<close>

definition seed_rows :: "draw \<times> draw \<times> draw \<Rightarrow> row list" where
  "seed_rows ds = (case ds of (d1, d2, d3) \<Rightarrow>
     [new_row d1 ''a fantasy castle in the clouds'' ''realistic'' [],
      new_row d2 ''a futuristic robot chef in a kitchen'' ''cyberpunk'' [],
      new_row d3 ''a panda riding a bicycle in space'' ''cartoon'' []])"




datatype alignment = Aligned | Not_fully_aligned | Not_applicable






section \<open>Inserting and listing\<close>

lemma save_prompts_append:
  "table w = Some rows \<Longrightarrow>
   save_prompts ins w = Inr (w\<lparr>table := Some (rows @ map inserted_row ins)\<rparr>)"
proof (induction ins arbitrary: w rows)
  case Nil
  then show ?case by simp
next
  case (Cons x ins)
  obtain d p s i where x: "x = (d, p, s, i)" by (cases x) auto
  let ?w = "w\<lparr>table := Some (rows @ [new_row d p s i])\<rparr>"
  have "table ?w = Some (rows @ [new_row d p s i])" by simp
  from Cons.IH [OF this] show ?case
    using Cons.prems by (simp add: x save_prompt_def inserted_row_def)
qed

lemma selected_inserted: "selected (inserted_row (d, p, s, i)) = (p, s, i, snd d)"
  by (simp add: selected_def inserted_row_def new_row_def)

text \<open>
  C1, as the code has it. After any sequence of calls of \<open>save_prompt\<close> on a world whose
  table exists, every call has returned normally, and \<open>get_prompt_history\<close> returns, for the
  rows that were there (the seed rows of \<open>init_db\<close> among them) and then for the inserted
  ones in the order of the calls, the four columns prompt, style, image path and timestamp.
  The id is stored, it is the uuid read by the call, but it is not among the columns
  returned; the stored ids are the old ones followed by the uuids read.
\<close>

theorem history_after_save_prompts:
  assumes "table w = Some rows"
  shows "save_prompts ins w = Inr (w\<lparr>table := Some (rows @ map inserted_row ins)\<rparr>)
    \<and> get_prompt_history (w\<lparr>table := Some (rows @ map inserted_row ins)\<rparr>)
        = Inr (map selected rows @ map (\<lambda>(d, p, s, i). (p, s, i, snd d)) ins)
    \<and> map id_col (rows @ map inserted_row ins)
        = map id_col rows @ map (\<lambda>(d, p, s, i). fst d) ins"
proof -
  have a: "map selected (map inserted_row ins) = map (\<lambda>(d, p, s, i). (p, s, i, snd d)) ins"
    by (induction ins) (auto simp: selected_inserted)
  have b: "map id_col (map inserted_row ins) = map (\<lambda>(d, p, s, i). fst d) ins"
    by (induction ins) (auto simp: inserted_row_def new_row_def)
  show ?thesis
    using save_prompts_append [OF assms, of ins] a b by (simp add: get_prompt_history_def)
qed

theorem history_after_save_prompts_witness:
  "get_prompt_history (projr (save_prompts
      [((''u4'', ''2024-05-01 10:00:00''), ''a cyberpunk city'', ''cyberpunk'', ''images/a.png''),
       ((''u5'', ''2024-05-01 10:00:09''), ''a city'', ''cartoon'', ''images/b.png'')]
      (init_db ((''u1'', ''2024-05-01 09:00:00''), (''u2'', ''2024-05-01 09:00:00''),
                (''u3'', ''2024-05-01 09:00:00''))
         \<lparr>table = None, files = Map.empty\<rparr>)))
   = Inr [(''a fantasy castle in the clouds'', ''realistic'', [], ''2024-05-01 09:00:00''),
          (''a futuristic robot chef in a kitchen'', ''cyberpunk'', [], ''2024-05-01 09:00:00''),
          (''a panda riding a bicycle in space'', ''cartoon'', [], ''2024-05-01 09:00:00''),
          (''a cyberpunk city'', ''cyberpunk'', ''images/a.png'', ''2024-05-01 10:00:00''),
          (''a city'', ''cartoon'', ''images/b.png'', ''2024-05-01 10:00:09'')]"
  using history_after_save_prompts [of
      "init_db ((''u1'', ''2024-05-01 09:00:00''), (''u2'', ''2024-05-01 09:00:00''),
                (''u3'', ''2024-05-01 09:00:00''))
         \<lparr>table = None, files = Map.empty\<rparr>"
      "[new_row (''u1'', ''2024-05-01 09:00:00'') ''a fantasy castle in the clouds'' ''realistic'' [],
        new_row (''u2'', ''2024-05-01 09:00:00'') ''a futuristic robot chef in a kitchen''
          ''cyberpunk'' [],
        new_row (''u3'', ''2024-05-01 09:00:00'') ''a panda riding a bicycle in space'' ''cartoon'' []]"
      "[((''u4'', ''2024-05-01 10:00:00''), ''a cyberpunk city'', ''cyberpunk'', ''images/a.png''),
       ((''u5'', ''2024-05-01 10:00:09''), ''a city'', ''cartoon'', ''images/b.png'')]"]
  by (simp add: init_db_def mock_data_def selected_def new_row_def)

text \<open>
  Two calls with the same prompt, style and image path within one second of the clock store
  two rows with different ids, and \<open>get_prompt_history\<close> returns the same entry twice: what
  it returns carries no id.
\<close>

theorem history_without_id_counterexample:
  "save_prompts
     [((''u1'', ''2024-05-01 10:00:00''), ''a cat'', ''cartoon'', []),
      ((''u2'', ''2024-05-01 10:00:00''), ''a cat'', ''cartoon'', [])]
     \<lparr>table = Some [], files = Map.empty\<rparr>
   = Inr \<lparr>table = Some [new_row (''u1'', ''2024-05-01 10:00:00'') ''a cat'' ''cartoon'' [],
                        new_row (''u2'', ''2024-05-01 10:00:00'') ''a cat'' ''cartoon'' []],
         files = Map.empty\<rparr>
   \<and> get_prompt_history
       \<lparr>table = Some [new_row (''u1'', ''2024-05-01 10:00:00'') ''a cat'' ''cartoon'' [],
                      new_row (''u2'', ''2024-05-01 10:00:00'') ''a cat'' ''cartoon'' []],
        files = Map.empty\<rparr>
     = Inr [(''a cat'', ''cartoon'', [], ''2024-05-01 10:00:00''),
            (''a cat'', ''cartoon'', [], ''2024-05-01 10:00:00'')]
   \<and> \<not> distinct [(''a cat'', ''cartoon'', [] :: string, ''2024-05-01 10:00:00''),
                   (''a cat'', ''cartoon'', [], ''2024-05-01 10:00:00'')]"
  by (simp add: save_prompt_def get_prompt_history_def selected_def new_row_def)

section \<open>Initialising twice, and the empty prompt\<close>

lemma insert_mock_seed: "insert_mock [d1, d2, d3] mock_data [] = seed_rows (d1, d2, d3)"
  by (simp add: mock_data_def seed_rows_def)

lemma init_db_cases:
  "init_db ds w = w\<lparr>table := Some (if stored_rows w = [] then seed_rows ds else stored_rows w)\<rparr>"
  by (cases ds) (auto simp: init_db_def stored_rows_def Let_def insert_mock_seed split: option.splits)

lemma seed_rows_not_Nil: "seed_rows ds \<noteq> []"
  by (cases ds) (simp add: seed_rows_def)

text \<open>
  C6. \<open>init_db\<close> seeds only a table it finds without rows (a missing table is created
  first): then the table holds the three example rows, otherwise its rows stay as they are.
  A second call, whatever it reads from the clock and the uuid source, changes nothing, so
  the row count after two calls is the count after one; files are not touched.
\<close>

theorem init_db_idempotent:
  "init_db ds' (init_db ds w) = init_db ds w
   \<and> stored_rows (init_db ds w) = (if stored_rows w = [] then seed_rows ds else stored_rows w)
   \<and> length (stored_rows (init_db ds' (init_db ds w))) = length (stored_rows (init_db ds w))
   \<and> length (seed_rows ds) = 3
   \<and> files (init_db ds w) = files w"
proof -
  have a: "stored_rows (init_db ds w) = (if stored_rows w = [] then seed_rows ds else stored_rows w)"
    by (simp add: init_db_cases stored_rows_def)
  have b: "init_db ds' (init_db ds w) = init_db ds w"
    using a seed_rows_not_Nil [of ds]
    by (simp add: init_db_cases [of ds' "init_db ds w"]) (simp add: init_db_cases)
  have c: "length (seed_rows ds) = 3" by (cases ds) (simp add: seed_rows_def)
  show ?thesis using a b c by (simp add: init_db_cases)
qed

text \<open>
  C10. On a world whose table exists, \<open>save_prompt\<close> with the empty prompt returns normally
  for every style and image path and stores a row whose prompt is empty, which
  \<open>get_prompt_history\<close> then lists last. The guard is in \<open>main\<close>: with an empty prompt the
  generate step does nothing.
\<close>

theorem save_prompt_empty_prompt:
  assumes "table w = Some rows"
  shows "save_prompt d [] s i w = Inr (w\<lparr>table := Some (rows @ [new_row d [] s i])\<rparr>)
    \<and> prompt (new_row d [] s i) = []
    \<and> get_prompt_history (w\<lparr>table := Some (rows @ [new_row d [] s i])\<rparr>)
        = Inr (map selected rows @ [([], s, i, snd d)])
    \<and> main_generate b [] s saved u d w = w"
  using assms
  by (simp add: save_prompt_def new_row_def get_prompt_history_def selected_def main_generate_def)

theorem save_prompt_empty_prompt_witness:
  "save_prompt (''u1'', ''2024-05-01 10:00:00'') [] ''cartoon'' ''images/a.png''
      \<lparr>table = Some [], files = Map.empty\<rparr>
   = Inr \<lparr>table = Some [\<lparr>id_col = ''u1'', prompt = [], expected_style = ''cartoon'',
                           image_path = ''images/a.png'', timestamp = ''2024-05-01 10:00:00''\<rparr>],
          files = Map.empty\<rparr>"
  using save_prompt_empty_prompt [of "\<lparr>table = Some [], files = Map.empty\<rparr>" "[]"
      "(''u1'', ''2024-05-01 10:00:00'')" "''cartoon''" "''images/a.png''"]
  by (simp add: new_row_def)

text \<open>With a prompt that is not empty the generate step does reach \<open>save_prompt\<close>.\<close>

lemma main_generate_saves:
  "table w = Some rows \<Longrightarrow> p \<noteq> [] \<Longrightarrow>
   main_generate True p s True u d w =
     w\<lparr>table := Some (rows @ [new_row d p s (''images/'' @ u @ ''.png'')]),
       files := (files w)((''images/'' @ u @ ''.png'') \<mapsto> File)\<rparr>"
  by (simp add: main_generate_def save_prompt_def Let_def)

section \<open>What deleting the history removes\<close>

text \<open>
  The loop over paths that are all absent or removable files ends normally and leaves
  none of them on disk; nothing else changes.
\<close>

lemma remove_images_ok:
  "(\<forall>p \<in> set ps. fs p = None \<or> fs p = Some File) \<Longrightarrow>
   remove_images ps fs = (None, \<lambda>q. if q \<in> set ps then None else fs q)"
proof (induction ps arbitrary: fs)
  case Nil
  then show ?case by simp
next
  case (Cons p ps)
  show ?case
  proof (cases "fs p")
    case None
    have "\<forall>q \<in> set ps. fs q = None \<or> fs q = Some File" using Cons.prems by simp
    from Cons.IH [OF this]
    have "remove_images (p # ps) fs = (None, \<lambda>q. if q \<in> set ps then None else fs q)"
      using None by (simp add: os_path_exists_def)
    moreover have "(\<lambda>q. if q \<in> set ps then None else fs q)
        = (\<lambda>q. if q \<in> set (p # ps) then None else fs q)"
      using None by (intro ext) simp
    ultimately show ?thesis by simp
  next
    case (Some n)
    then have n: "fs p = Some File" using Cons.prems by auto
    let ?fs = "fs(p := None)"
    have "\<forall>q \<in> set ps. ?fs q = None \<or> ?fs q = Some File"
      using Cons.prems by simp
    from Cons.IH [OF this]
    have "remove_images ps ?fs = (None, \<lambda>q. if q \<in> set ps then None else ?fs q)" .
    moreover have "remove_images (p # ps) fs = remove_images ps ?fs"
      using n by (simp add: os_path_exists_def os_remove_def)
    moreover have "(\<lambda>q. if q \<in> set ps then None else ?fs q)
        = (\<lambda>q. if q \<in> set (p # ps) then None else fs q)"
      by (intro ext) simp
    ultimately show ?thesis by simp
  qed
qed







text \<open>
  A gathered path that leads to the database: the loop unlinks the file, the \<open>DELETE\<close>
  raises, and the table is gone.
\<close>

lemma delete_prompt_history_unlinks_database:
  assumes "table w = Some rows"
    and "\<exists>p \<in> set (select_image_paths rows). names_db p"
    and "\<forall>p \<in> set (select_image_paths rows).
           names_db p \<or> files w p = None \<or> files w p = Some File"
  shows "fst (delete_prompt_history names_db w) = Some OperationalError
    \<and> table (snd (delete_prompt_history names_db w)) = None"
proof -
  let ?ps = "select_image_paths rows"
  let ?disk = "\<lambda>p. if names_db p then Some File else files w p"
  let ?fs = "\<lambda>q. if q \<in> set ?ps then None else ?disk q"
  have "\<forall>p \<in> set ?ps. ?disk p = None \<or> ?disk p = Some File"
    using assms(3) by auto
  from remove_images_ok [OF this] have r: "remove_images ?ps ?disk = (None, ?fs)" .
  have u: "list_ex (\<lambda>p. names_db p \<and> ?fs p = None) ?ps"
    using assms(2) by (simp add: list_ex_iff)
  show ?thesis
    using assms(1) r u by (simp add: delete_prompt_history_def Let_def)
qed

lemma delete_database_file_example:
  "fst (delete_prompt_history plain_names
     \<lparr>table = Some [new_row (''u1'', ''2024-05-01 10:00:00'') ''a cat'' ''cartoon'' ''prompts.db''],
      files = Map.empty\<rparr>) = Some OperationalError
   \<and> get_prompt_history (snd (delete_prompt_history plain_names
     \<lparr>table = Some [new_row (''u1'', ''2024-05-01 10:00:00'') ''a cat'' ''cartoon'' ''prompts.db''],
      files = Map.empty\<rparr>)) = Inl OperationalError"
  by (simp add: delete_prompt_history_def select_image_paths_def new_row_def plain_names_def
      os_path_exists_def os_remove_def get_prompt_history_def)

text \<open>
  C2, as the code has it. The list \<open>image_paths\<close> that \<open>delete_prompt_history\<close> gathers is
  the image path column of the rows, in row order, with the empty paths left out (so the
  paths of more rows are the paths of the first rows followed by those of the later rows).
  It holds one entry for every row whose image path is not empty: as a set it is the set of
  the image paths in the table that are not empty, the empty path is not in it, and a path
  occurs in it as often as rows refer to it.
\<close>

theorem select_image_paths_content:
  "select_image_paths rows = filter (\<lambda>p. p \<noteq> []) (map image_path rows)
   \<and> select_image_paths (rows @ rows') = select_image_paths rows @ select_image_paths rows'
   \<and> set (select_image_paths rows) = image_path ` set rows - {[]}
   \<and> [] \<notin> set (select_image_paths rows)
   \<and> count_list (select_image_paths rows) p
       = (if p = [] then 0 else length (filter (\<lambda>r. image_path r = p) rows))"
proof -
  have o: "select_image_paths rows = filter (\<lambda>p. p \<noteq> []) (map image_path rows)"
    by (induction rows) (simp_all add: select_image_paths_def)
  have h: "select_image_paths (rows @ rows') = select_image_paths rows @ select_image_paths rows'"
    by (simp add: select_image_paths_def)
  have a: "set (select_image_paths rows) = image_path ` set rows - {[]}"
    by (auto simp: select_image_paths_def)
  have b: "count_list (select_image_paths rows) p
       = (if p = [] then 0 else length (filter (\<lambda>r. image_path r = p) rows))"
    by (induction rows) (auto simp: select_image_paths_def)
  show ?thesis using o h a b by simp
qed

text \<open>
  Two rows that refer to one file: the list holds the path twice.
\<close>

theorem select_image_paths_duplicates_counterexample:
  "select_image_paths
     [new_row (''u1'', ''2024-05-01 10:00:00'') ''a cat'' ''cartoon'' ''images/a.png'',
      new_row (''u2'', ''2024-05-01 10:00:07'') ''a dog'' ''cartoon'' ''images/a.png'']
   = [''images/a.png'', ''images/a.png'']
   \<and> \<not> distinct (select_image_paths
     [new_row (''u1'', ''2024-05-01 10:00:00'') ''a cat'' ''cartoon'' ''images/a.png'',
      new_row (''u2'', ''2024-05-01 10:00:07'') ''a dog'' ''cartoon'' ''images/a.png''])"
  by (simp add: select_image_paths_def new_row_def)







text \<open>
  C9, as the code has it. One step of the loop over \<open>image_paths\<close>: at a path where nothing
  exists it removes nothing and raises nothing, a file that can be removed is removed, and
  an exception of \<open>os.remove\<close> is passed on. Nothing is returned that tells the two first
  cases apart.
\<close>

theorem remove_one_image:
  "remove_images [path] fs =
     (case fs path of
        None \<Rightarrow> (None, fs)
      | Some File \<Rightarrow> (None, fs(path := None))
      | Some Locked_File \<Rightarrow> (Some PermissionError, fs)
      | Some Dir \<Rightarrow> (Some IsADirectoryError, fs))"
  by (simp add: os_path_exists_def os_remove_def split: option.splits fnode.splits)

text \<open>
  The same table, once without and once with the artifact on disk: the caller gets the
  same result, although only the second run removed a file.
\<close>

theorem removal_not_reported_counterexample:
  "fst (delete_prompt_history plain_names
     \<lparr>table = Some [new_row (''u1'', ''2024-05-01 10:00:00'') ''a cat'' ''cartoon'' ''images/a.png''],
      files = Map.empty\<rparr>)
   = fst (delete_prompt_history plain_names
     \<lparr>table = Some [new_row (''u1'', ''2024-05-01 10:00:00'') ''a cat'' ''cartoon'' ''images/a.png''],
      files = [''images/a.png'' \<mapsto> File]\<rparr>)
   \<and> files (snd (delete_prompt_history plain_names
     \<lparr>table = Some [new_row (''u1'', ''2024-05-01 10:00:00'') ''a cat'' ''cartoon'' ''images/a.png''],
      files = [''images/a.png'' \<mapsto> File]\<rparr>)) ''images/a.png'' = None"
  by (simp add: delete_prompt_history_def select_image_paths_def new_row_def plain_names_def
      os_path_exists_def os_remove_def)

section \<open>The report\<close>

lemma report_loop_append:
  "report_loop str_lower history report
     = report @ concat (map (report_block str_lower) history)"
  by (induction history arbitrary: report) auto

lemma generate_report_blocks:
  "generate_report str_lower history = header @ concat (map (report_block str_lower) history)"
  by (simp add: generate_report_def report_loop_append)

lemma header_text: "header = ''Evaluation Report\<newline>====================\<newline>''"
  by (simp add: header_def eval_nat_numeral)

















text \<open>
  C5. The report is the fixed header followed by one block for each record of the history,
  in the order of the history; a block gives the prompt, the style, the image path or
  \<open>Not generated\<close>, the alignment and the timestamp of its record, each on a line of its own.
\<close>

theorem report_structure:
  "generate_report str_lower history = header @ concat (map (report_block str_lower) history)
   \<and> header = ''Evaluation Report\<newline>====================\<newline>''
   \<and> prefix header (generate_report str_lower history)
   \<and> length (map (report_block str_lower) history) = length history
   \<and> report_block str_lower (p, style, path, ts) =
       ''Prompt: '' @ p @ ''\<newline>Style: '' @ style
       @ ''\<newline>Image: '' @ (if path = [] then ''Not generated'' else path)
       @ ''\<newline>Alignment: ''
       @ (if path = [] then ''N/A''
          else if str_in (str_lower style) (str_lower p) then ''Aligned'' else ''Not fully aligned'')
       @ ''\<newline>Timestamp: '' @ ts @ ''\<newline>\<newline>''"
  by (simp add: generate_report_blocks header_text [symmetric])

end
